theory Spec2Isabelle
  imports
    Main
    "HOL-Library.Char_ord"
    "HOL-Library.List_Lexorder"
    "HOL-Library.Option_ord"
    "HOL-Library.Product_Lexorder"
    "HOL-Library.Multiset"
begin

section \<open>Python values\<close>

text \<open>
  The payload handed to \<^verbatim>\<open>brainwave_callback\<close> is a Python dict of JSON-shaped
  values. A dict is an association list in insertion order whose keys are distinct
  (\<open>wf_json\<close> below says so); numbers are Python ints. Binary floating point is outside
  this model, and a character is one of the code points 0 to 255.
\<close>

datatype json =
    JNull
  | JBool bool
  | JInt int
  | JStr string
  | JArr "json list"
  | JObj "(string \<times> json) list"

type_synonym pydict = "(string \<times> json) list"

datatype error =
    AttributeError
  | TypeError
  | OverflowError
  | JSONDecodeError
  | BindingError
  | OperationalError
  | DatabaseError
  | OutsideModel
  | OutOfFuel

text \<open>\<^verbatim>\<open>d.get(k)\<close>, \<^verbatim>\<open>d.get(k, default)\<close> and \<^verbatim>\<open>d[k] = v\<close>.\<close>

definition dict_get :: "pydict \<Rightarrow> string \<Rightarrow> json option" where
  "dict_get d k = map_of d k"

definition dict_get_default :: "pydict \<Rightarrow> string \<Rightarrow> json \<Rightarrow> json" where
  "dict_get_default d k dflt = (case map_of d k of None \<Rightarrow> dflt | Some v \<Rightarrow> v)"

fun dict_setitem :: "pydict \<Rightarrow> string \<Rightarrow> json \<Rightarrow> pydict" where
  "dict_setitem [] k v = [(k, v)]"
| "dict_setitem ((k', v') # d) k v =
     (if k' = k then (k, v) # d else (k', v') # dict_setitem d k v)"

text \<open>Truth value of a Python object, as \<^verbatim>\<open>not x\<close> tests it.\<close>

fun truthy :: "json \<Rightarrow> bool" where
  "truthy JNull = False"
| "truthy (JBool b) = b"
| "truthy (JInt i) = (i \<noteq> 0)"
| "truthy (JStr s) = (s \<noteq> [])"
| "truthy (JArr xs) = (xs \<noteq> [])"
| "truthy (JObj kvs) = (kvs \<noteq> [])"

text \<open>\<^verbatim>\<open>len(x)\<close>: a TypeError on None, a bool or a number.\<close>

fun py_len :: "json \<Rightarrow> error + nat" where
  "py_len (JStr s) = Inr (length s)"
| "py_len (JArr xs) = Inr (length xs)"
| "py_len (JObj kvs) = Inr (length kvs)"
| "py_len JNull = Inl TypeError"
| "py_len (JBool b) = Inl TypeError"
| "py_len (JInt i) = Inl TypeError"

text \<open>Decimal text of an integer, as \<^verbatim>\<open>str\<close>, \<^verbatim>\<open>json.dumps\<close> and SQLite print it.\<close>

definition digit_char :: "nat \<Rightarrow> char" where
  "digit_char d = char_of (48 + d)"

function show_digits :: "int \<Rightarrow> string" where
  "show_digits n =
     (if n < 10 then [digit_char (nat n)]
      else show_digits (n div 10) @ [digit_char (nat (n mod 10))])"
  by pat_completeness auto
termination
  by (relation "measure nat") auto

declare show_digits.simps [simp del]

definition show_int :: "int \<Rightarrow> string" where
  "show_int i = (if i < 0 then CHR ''-'' # show_digits (- i) else show_digits i)"

section \<open>The store\<close>

text \<open>
  A row of \<^verbatim>\<open>brainwaves_raw(id INTEGER PRIMARY KEY AUTOINCREMENT, timestamp TEXT,
  data TEXT, user_name TEXT)\<close>. The timestamp column is NULL (\<open>None\<close>) or a text.
\<close>

record row =
  row_id :: nat
  row_timestamp :: "string option"
  row_data :: string
  row_user_name :: string

text \<open>
  A database file: its tables (name and columns), its indexes (name and what it
  indexes), the committed rows of \<^verbatim>\<open>brainwaves_raw\<close> in insertion order and the
  largest row id handed out so far.
\<close>

record database =
  db_tables :: "(string \<times> string list) list"
  db_indexes :: "(string \<times> string \<times> string) list"
  db_rows :: "row list"
  db_seq :: nat

text \<open>
  A connection of Python's \<^verbatim>\<open>sqlite3\<close> module: the database plus the rows inserted
  in the transaction that is open, if any. The module opens a transaction before
  the first INSERT and keeps it open until \<^verbatim>\<open>commit\<close> or \<^verbatim>\<open>rollback\<close>; an
  exception does not close it.
\<close>

record connection = database +
  pending :: "row list"

definition commit :: "connection \<Rightarrow> connection" where
  "commit c = c\<lparr>db_rows := db_rows c @ pending c, pending := []\<rparr>"

text \<open>
  What SQLite stores in a TEXT column for a bound Python value: None is NULL, a str
  is itself, an int (a bool is an int) is its decimal text when it fits 64 bits. A
  list or a dict cannot be bound.
\<close>

fun bind_parameter :: "json \<Rightarrow> error + string option" where
  "bind_parameter JNull = Inr None"
| "bind_parameter (JBool b) = Inr (Some (if b then ''1'' else ''0''))"
| "bind_parameter (JInt i) =
     (if - (2 ^ 63) \<le> i \<and> i < 2 ^ 63 then Inr (Some (show_int i)) else Inl OverflowError)"
| "bind_parameter (JStr s) = Inr (Some s)"
| "bind_parameter (JArr xs) = Inl BindingError"
| "bind_parameter (JObj kvs) = Inl BindingError"

definition execute_insert :: "string option \<Rightarrow> string \<Rightarrow> string \<Rightarrow> connection \<Rightarrow> connection" where
  "execute_insert ts d u c =
     c\<lparr>db_seq := Suc (db_seq c),
       pending := pending c @
         [\<lparr>row_id = Suc (db_seq c), row_timestamp = ts, row_data = d, row_user_name = u\<rparr>]\<rparr>"

text \<open>
  What the engine does during one flush is not decided by the program: it may
  refuse the \<open>k\<close>-th INSERT of the loop or the COMMIT (a locked database, a full
  disk, a missing table).
\<close>

datatype fault = NoFault | ExecuteFails nat | CommitFails

section \<open>Serialising a payload\<close>

text \<open>
  \<^verbatim>\<open>json.dumps\<close> with Python's defaults: separators \<^verbatim>\<open>", "\<close> and \<^verbatim>\<open>": "\<close>,
  and every character outside space to tilde escaped.
\<close>

definition hex_digit :: "nat \<Rightarrow> char" where
  "hex_digit d = (if d < 10 then char_of (48 + d) else char_of (87 + d))"

definition escape_char :: "char \<Rightarrow> string" where
  "escape_char c =
     (if c = CHR 0x22 then [CHR 0x5C, CHR 0x22]
      else if c = CHR 0x5C then [CHR 0x5C, CHR 0x5C]
      else if c = CHR 0x0A then [CHR 0x5C, CHR ''n'']
      else if c = CHR 0x0D then [CHR 0x5C, CHR ''r'']
      else if c = CHR 0x09 then [CHR 0x5C, CHR ''t'']
      else if c = CHR 0x08 then [CHR 0x5C, CHR ''b'']
      else if c = CHR 0x0C then [CHR 0x5C, CHR ''f'']
      else if (of_char c :: nat) < 32 \<or> 126 < (of_char c :: nat)
        then [CHR 0x5C, CHR ''u'', CHR ''0'', CHR ''0'',
              hex_digit (of_char c div 16), hex_digit (of_char c mod 16)]
      else [c])"

definition dumps_str :: "string \<Rightarrow> string" where
  "dumps_str s = CHR 0x22 # concat (map escape_char s) @ [CHR 0x22]"

fun json_dumps :: "json \<Rightarrow> string"
  and dumps_tail :: "json list \<Rightarrow> string"
  and dumps_members :: "(string \<times> json) list \<Rightarrow> string"
where
  "json_dumps JNull = ''null''"
| "json_dumps (JBool b) = (if b then ''true'' else ''false'')"
| "json_dumps (JInt i) = show_int i"
| "json_dumps (JStr s) = dumps_str s"
| "json_dumps (JArr []) = ''[]''"
| "json_dumps (JArr (x # xs)) = CHR ''['' # json_dumps x @ dumps_tail xs"
| "json_dumps (JObj []) = ''{}''"
| "json_dumps (JObj ((k, v) # kvs)) =
     CHR ''{'' # dumps_str k @ '': '' @ json_dumps v @ dumps_members kvs"
| "dumps_tail [] = '']''"
| "dumps_tail (x # xs) = '', '' @ json_dumps x @ dumps_tail xs"
| "dumps_members [] = ''}''"
| "dumps_members ((k, v) # kvs) =
     '', '' @ dumps_str k @ '': '' @ json_dumps v @ dumps_members kvs"

section \<open>Decoding a payload\<close>

text \<open>
  \<^verbatim>\<open>json.loads\<close>: white space between tokens, the escapes of a string, integers,
  arrays and objects (a repeated key keeps its first place and its last value). A
  float literal, \<^verbatim>\<open>NaN\<close>, \<^verbatim>\<open>Infinity\<close> and a code point above 255 are
  \<open>OutsideModel\<close>. The recursion is bounded by fuel: every recursive call comes
  after a character was consumed, so one more than the length of the text is
  enough, and \<open>OutOfFuel\<close> is not a Python error.
\<close>

definition is_ws :: "char \<Rightarrow> bool" where
  "is_ws c = (c = CHR '' '' \<or> c = CHR 0x09 \<or> c = CHR 0x0A \<or> c = CHR 0x0D)"

definition skip_ws :: "string \<Rightarrow> string" where
  "skip_ws s = dropWhile is_ws s"

definition is_digit :: "char \<Rightarrow> bool" where
  "is_digit c = (48 \<le> (of_char c :: nat) \<and> (of_char c :: nat) \<le> 57)"

definition digit_val :: "char \<Rightarrow> nat" where
  "digit_val c = of_char c - 48"

definition digits_val :: "string \<Rightarrow> int" where
  "digits_val ds = foldl (\<lambda>n c. 10 * n + int (digit_val c)) 0 ds"

definition hex_val :: "char \<Rightarrow> nat option" where
  "hex_val c =
     (let n = (of_char c :: nat) in
      if 48 \<le> n \<and> n \<le> 57 then Some (n - 48)
      else if 97 \<le> n \<and> n \<le> 102 then Some (n - 87)
      else if 65 \<le> n \<and> n \<le> 70 then Some (n - 55)
      else None)"

definition unescape :: "char \<Rightarrow> char option" where
  "unescape e =
     (if e = CHR 0x22 then Some (CHR 0x22)
      else if e = CHR 0x5C then Some (CHR 0x5C)
      else if e = CHR ''/'' then Some (CHR ''/'')
      else if e = CHR ''b'' then Some (CHR 0x08)
      else if e = CHR ''f'' then Some (CHR 0x0C)
      else if e = CHR ''n'' then Some (CHR 0x0A)
      else if e = CHR ''r'' then Some (CHR 0x0D)
      else if e = CHR ''t'' then Some (CHR 0x09)
      else None)"

definition unicode_escape :: "string \<Rightarrow> error + char" where
  "unicode_escape s =
     (case s of
        h1 # h2 # h3 # h4 # rest \<Rightarrow>
          (case (hex_val h1, hex_val h2, hex_val h3, hex_val h4) of
             (Some a, Some b, Some c, Some d) \<Rightarrow>
               if a = 0 \<and> b = 0 then Inr (char_of (16 * c + d)) else Inl OutsideModel
           | _ \<Rightarrow> Inl JSONDecodeError)
      | _ \<Rightarrow> Inl JSONDecodeError)"

fun scan_string :: "string \<Rightarrow> error + string \<times> string" where
  "scan_string [] = Inl JSONDecodeError"
| "scan_string (c # cs) =
     (if c = CHR 0x22 then Inr ([], cs)
      else if c = CHR 0x5C then
        (case cs of
           [] \<Rightarrow> Inl JSONDecodeError
         | e # cs' \<Rightarrow>
             if e = CHR ''u'' then
               (case unicode_escape cs' of
                  Inl err \<Rightarrow> Inl err
                | Inr ch \<Rightarrow>
                    (case scan_string (drop 4 cs') of
                       Inl err \<Rightarrow> Inl err
                     | Inr (s, rest) \<Rightarrow> Inr (ch # s, rest)))
             else
               (case unescape e of
                  None \<Rightarrow> Inl JSONDecodeError
                | Some ch \<Rightarrow>
                    (case scan_string cs' of
                       Inl err \<Rightarrow> Inl err
                     | Inr (s, rest) \<Rightarrow> Inr (ch # s, rest))))
      else if (of_char c :: nat) < 32 then Inl JSONDecodeError
      else
        (case scan_string cs of
           Inl err \<Rightarrow> Inl err
         | Inr (s, rest) \<Rightarrow> Inr (c # s, rest)))"

definition starts_with :: "string \<Rightarrow> string \<Rightarrow> bool" where
  "starts_with p s = (take (length p) s = p)"

definition starts_fraction :: "string \<Rightarrow> bool" where
  "starts_fraction s = (case s of c # d # r \<Rightarrow> c = CHR ''.'' \<and> is_digit d | _ \<Rightarrow> False)"

definition starts_exponent :: "string \<Rightarrow> bool" where
  "starts_exponent s =
     (case s of
        c # d # r \<Rightarrow>
          (c = CHR ''e'' \<or> c = CHR ''E'') \<and>
          (is_digit d \<or> ((d = CHR ''+'' \<or> d = CHR ''-'') \<and> (case r of d' # r' \<Rightarrow> is_digit d' | [] \<Rightarrow> False)))
      | _ \<Rightarrow> False)"

definition scan_digits :: "string \<Rightarrow> (string \<times> string) option" where
  "scan_digits s =
     (case s of
        [] \<Rightarrow> None
      | c # r \<Rightarrow>
          if c = CHR ''0'' then Some ([c], r)
          else if is_digit c then Some (takeWhile is_digit s, dropWhile is_digit s)
          else None)"

definition scan_number :: "string \<Rightarrow> error + json \<times> string" where
  "scan_number s =
     (let neg = starts_with ''-'' s; s1 = (if neg then tl s else s) in
      case scan_digits s1 of
        None \<Rightarrow> if starts_with ''Infinity'' s1 then Inl OutsideModel else Inl JSONDecodeError
      | Some (ds, rest) \<Rightarrow>
          if starts_fraction rest \<or> starts_exponent rest then Inl OutsideModel
          else Inr (JInt (if neg then - digits_val ds else digits_val ds), rest))"

fun dict_of_pairs :: "pydict \<Rightarrow> (string \<times> json) list \<Rightarrow> pydict" where
  "dict_of_pairs d [] = d"
| "dict_of_pairs d ((k, v) # kvs) = dict_of_pairs (dict_setitem d k v) kvs"

fun parse_value :: "nat \<Rightarrow> string \<Rightarrow> error + json \<times> string"
  and parse_tail :: "nat \<Rightarrow> string \<Rightarrow> error + json list \<times> string"
  and parse_members :: "nat \<Rightarrow> string \<Rightarrow> error + (string \<times> json) list \<times> string"
where
  "parse_value 0 s = Inl OutOfFuel"
| "parse_value (Suc n) s =
     (case s of
        [] \<Rightarrow> Inl JSONDecodeError
      | c # cs \<Rightarrow>
          if c = CHR 0x22 then
            (case scan_string cs of
               Inl err \<Rightarrow> Inl err
             | Inr (str, rest) \<Rightarrow> Inr (JStr str, rest))
          else if c = CHR ''{'' then
            (if starts_with ''}'' (skip_ws cs) then Inr (JObj [], tl (skip_ws cs))
             else if \<not> starts_with [CHR 0x22] (skip_ws cs) then Inl JSONDecodeError
             else
               case scan_string (tl (skip_ws cs)) of
                 Inl err \<Rightarrow> Inl err
               | Inr (k, rest) \<Rightarrow>
                   if \<not> starts_with '':'' (skip_ws rest) then Inl JSONDecodeError
                   else
                     (case parse_value n (skip_ws (tl (skip_ws rest))) of
                        Inl err \<Rightarrow> Inl err
                      | Inr (v, rest') \<Rightarrow>
                          (case parse_members n rest' of
                             Inl err \<Rightarrow> Inl err
                           | Inr (kvs, rest'') \<Rightarrow>
                               Inr (JObj (dict_of_pairs [] ((k, v) # kvs)), rest''))))
          else if c = CHR ''['' then
            (if starts_with '']'' (skip_ws cs) then Inr (JArr [], tl (skip_ws cs))
             else
               case parse_value n (skip_ws cs) of
                 Inl err \<Rightarrow> Inl err
               | Inr (x, rest) \<Rightarrow>
                   (case parse_tail n rest of
                      Inl err \<Rightarrow> Inl err
                    | Inr (xs, rest') \<Rightarrow> Inr (JArr (x # xs), rest')))
          else if starts_with ''null'' s then Inr (JNull, drop 4 s)
          else if starts_with ''true'' s then Inr (JBool True, drop 4 s)
          else if starts_with ''false'' s then Inr (JBool False, drop 5 s)
          else if starts_with ''NaN'' s then Inl OutsideModel
          else scan_number s)"
| "parse_tail 0 s = Inl OutOfFuel"
| "parse_tail (Suc n) s =
     (if starts_with '']'' (skip_ws s) then Inr ([], tl (skip_ws s))
      else if \<not> starts_with '','' (skip_ws s) then Inl JSONDecodeError
      else
        case parse_value n (skip_ws (tl (skip_ws s))) of
          Inl err \<Rightarrow> Inl err
        | Inr (x, rest) \<Rightarrow>
            (case parse_tail n rest of
               Inl err \<Rightarrow> Inl err
             | Inr (xs, rest') \<Rightarrow> Inr (x # xs, rest')))"
| "parse_members 0 s = Inl OutOfFuel"
| "parse_members (Suc n) s =
     (if starts_with ''}'' (skip_ws s) then Inr ([], tl (skip_ws s))
      else if \<not> starts_with '','' (skip_ws s) then Inl JSONDecodeError
      else if \<not> starts_with [CHR 0x22] (skip_ws (tl (skip_ws s))) then Inl JSONDecodeError
      else
        case scan_string (tl (skip_ws (tl (skip_ws s)))) of
          Inl err \<Rightarrow> Inl err
        | Inr (k, rest) \<Rightarrow>
            if \<not> starts_with '':'' (skip_ws rest) then Inl JSONDecodeError
            else
              (case parse_value n (skip_ws (tl (skip_ws rest))) of
                 Inl err \<Rightarrow> Inl err
               | Inr (v, rest') \<Rightarrow>
                   (case parse_members n rest' of
                      Inl err \<Rightarrow> Inl err
                    | Inr (kvs, rest'') \<Rightarrow> Inr ((k, v) # kvs, rest''))))"

definition json_loads :: "string \<Rightarrow> error + json" where
  "json_loads s =
     (case parse_value (Suc (length s)) (skip_ws s) of
        Inl err \<Rightarrow> Inl err
      | Inr (v, rest) \<Rightarrow> if skip_ws rest = [] then Inr v else Inl JSONDecodeError)"



section \<open>The buffered writer of \<^verbatim>\<open>app.py\<close>\<close>

text \<open>
  The fields of \<^verbatim>\<open>NeurosityApp\<close> the writer uses. \<^verbatim>\<open>buffer_size\<close> is whatever
  integer the environment variable holds, also zero or a negative number.
\<close>

record app =
  buffer :: "pydict list"
  buffer_size :: int
  user_name :: string
  conn :: connection

text \<open>
  A clock gives the reading of \<^verbatim>\<open>datetime.now().isoformat()\<close> at each turn of the
  loop of a flush.
\<close>

type_synonym clock = "nat \<Rightarrow> string"

text \<open>What one call of \<^verbatim>\<open>flush_buffer\<close> prints: nothing, the number flushed, or the error.\<close>

datatype outcome = Skipped | Flushed nat | Failed error

text \<open>
  The loop of \<^verbatim>\<open>flush_buffer\<close>, from item number \<open>i\<close> on. It stops at the first
  exception and returns the connection as it is then: the rows inserted so far stay
  in the open transaction.
\<close>

fun execute_inserts ::
  "clock \<Rightarrow> string \<Rightarrow> fault \<Rightarrow> nat \<Rightarrow> pydict list \<Rightarrow> connection \<Rightarrow> error option \<times> connection"
where
  "execute_inserts clk user flt i [] c = (None, c)"
| "execute_inserts clk user flt i (item # items) c =
     (case bind_parameter (dict_get_default item ''timestamp'' (JStr (clk i))) of
        Inl e \<Rightarrow> (Some e, c)
      | Inr ts \<Rightarrow>
          if flt = ExecuteFails i then (Some OperationalError, c)
          else execute_inserts clk user flt (Suc i) items
                 (execute_insert ts (json_dumps (JObj item)) user c))"

definition flush_buffer :: "clock \<Rightarrow> fault \<Rightarrow> app \<Rightarrow> outcome \<times> app" where
  "flush_buffer clk flt st =
     (if buffer st = [] then (Skipped, st)
      else
        case execute_inserts clk (user_name st) flt 0 (buffer st) (conn st) of
          (Some e, c) \<Rightarrow> (Failed e, st\<lparr>conn := c\<rparr>)
        | (None, c) \<Rightarrow>
            if flt = CommitFails then (Failed OperationalError, st\<lparr>conn := c\<rparr>)
            else (Flushed (length (buffer st)), st\<lparr>conn := commit c, buffer := []\<rparr>))"

text \<open>\<^verbatim>\<open>buffer_data\<close>: the outcome is that of the flush it triggered, if it triggered one.\<close>

definition buffer_data :: "clock \<Rightarrow> fault \<Rightarrow> pydict \<Rightarrow> app \<Rightarrow> outcome option \<times> app" where
  "buffer_data clk flt d st =
     (let st' = st\<lparr>buffer := buffer st @ [d]\<rparr> in
      if buffer_size st' \<le> int (length (buffer st'))
      then (case flush_buffer clk flt st' of (out, st'') \<Rightarrow> (Some out, st''))
      else (None, st'))"

text \<open>
  \<^verbatim>\<open>brainwave_callback\<close>, with \<open>now\<close> the clock reading it would stamp. The summary
  it prints needs the length of the \<^verbatim>\<open>data\<close> field, which raises for a field that
  has no length; the payload is then never buffered.
\<close>

definition brainwave_callback ::
  "string \<Rightarrow> clock \<Rightarrow> fault \<Rightarrow> pydict \<Rightarrow> app \<Rightarrow> error + outcome option \<times> app"
where
  "brainwave_callback now clk flt d st =
     (let d' = (if \<not> (case dict_get d ''timestamp'' of None \<Rightarrow> False | Some v \<Rightarrow> truthy v)
                then dict_setitem d ''timestamp'' (JStr now) else d)
      in case py_len (dict_get_default d' ''data'' (JArr [])) of
           Inl e \<Rightarrow> Inl e
         | Inr channels \<Rightarrow> Inr (buffer_data clk flt d' st))"

text \<open>
  A run of the writer: samples arriving and flushes requested by the timer or at
  shutdown, each with the clock and the engine's behaviour at that moment. The
  outcomes are listed in order.
\<close>

datatype event = Ingest pydict | Flush


fun step :: "event \<times> clock \<times> fault \<Rightarrow> app \<Rightarrow> outcome option \<times> app" where
  "step (Ingest d, clk, flt) st = buffer_data clk flt d st"
| "step (Flush, clk, flt) st = (case flush_buffer clk flt st of (out, st') \<Rightarrow> (Some out, st'))"

fun run :: "(event \<times> clock \<times> fault) list \<Rightarrow> app \<Rightarrow> outcome option list \<times> app" where
  "run [] st = ([], st)"
| "run (ev # evs) st =
     (case step ev st of (out, st') \<Rightarrow>
        (case run evs st' of (outs, st'') \<Rightarrow> (out # outs, st'')))"

definition failed :: "outcome option \<Rightarrow> bool" where
  "failed out = (case out of Some (Failed e) \<Rightarrow> True | _ \<Rightarrow> False)"

section \<open>The reader of \<^verbatim>\<open>data_viewer.py\<close>\<close>


definition order_by_timestamp_desc :: "row list \<Rightarrow> row list" where
  "order_by_timestamp_desc rows = rev (sort_key row_timestamp rows)"

text \<open>\<^verbatim>\<open>LIMIT n\<close>: a negative \<open>n\<close> is no limit.\<close>

definition sql_limit :: "int \<Rightarrow> 'a list \<Rightarrow> 'a list" where
  "sql_limit n xs = (if n < 0 then xs else take (nat n) xs)"

text \<open>\<^verbatim>\<open>timestamp BETWEEN ? AND ?\<close> with two texts bound: NULL is never between.\<close>

definition between :: "string \<Rightarrow> string \<Rightarrow> row \<Rightarrow> bool" where
  "between start_time end_time r =
     (Some start_time \<le> row_timestamp r \<and> row_timestamp r \<le> Some end_time)"

record summary =
  s_timestamp :: "string option"
  s_user_name :: string
  s_channels :: nat
  s_deviceId :: json

text \<open>
  The body of the loop of \<^verbatim>\<open>get_recent_data\<close>. Nothing catches what
  \<^verbatim>\<open>json.loads\<close>, \<^verbatim>\<open>.get\<close> on a value that is no dict, or \<^verbatim>\<open>len\<close> raise.
\<close>

definition summarise :: "row \<Rightarrow> error + summary" where
  "summarise r =
     (case json_loads (row_data r) of
        Inl err \<Rightarrow> Inl err
      | Inr (JObj d) \<Rightarrow>
          (case py_len (dict_get_default d ''data'' (JArr [])) of
             Inl err \<Rightarrow> Inl err
           | Inr n \<Rightarrow>
               Inr \<lparr>s_timestamp = row_timestamp r, s_user_name = row_user_name r,
                    s_channels = n,
                    s_deviceId = dict_get_default d ''deviceId'' (JStr ''unknown'')\<rparr>)
      | Inr _ \<Rightarrow> Inl AttributeError)"

text \<open>A \<^verbatim>\<open>for\<close> loop that appends one record per row and stops at the first exception.\<close>

fun for_each :: "('a \<Rightarrow> error + 'b) \<Rightarrow> 'a list \<Rightarrow> error + 'b list" where
  "for_each f [] = Inr []"
| "for_each f (x # xs) =
     (case f x of
        Inl err \<Rightarrow> Inl err
      | Inr y \<Rightarrow> (case for_each f xs of Inl err \<Rightarrow> Inl err | Inr ys \<Rightarrow> Inr (y # ys)))"

definition select_recent :: "int \<Rightarrow> row list \<Rightarrow> row list" where
  "select_recent limit rows = sql_limit limit (order_by_timestamp_desc rows)"

definition get_recent_data :: "int \<Rightarrow> row list \<Rightarrow> error + summary list" where
  "get_recent_data limit rows = for_each summarise (select_recent limit rows)"


text \<open>
  The query of \<^verbatim>\<open>plot_data_volume_by_hour\<close>: \<^verbatim>\<open>substr(timestamp, 1, 13)\<close>, the
  count and the owner of each group, ordered by hour. Its two bounds are the ISO
  texts of the clock reading and of the reading minus the days asked for; they are
  parameters here.
\<close>

definition hour_of :: "row \<Rightarrow> string option" where
  "hour_of r = map_option (take 13) (row_timestamp r)"

definition hourly_counts ::
  "string \<Rightarrow> string \<Rightarrow> row list \<Rightarrow> (string option \<times> nat \<times> string) list"
where
  "hourly_counts start_time end_time rows =
     (let selected = filter (between start_time end_time) rows;
          groups = sort (remdups (map (\<lambda>r. (hour_of r, row_user_name r)) selected))
      in map (\<lambda>(h, u).
                (h, length (filter (\<lambda>r. hour_of r = h \<and> row_user_name r = u) selected), u))
             groups)"

text \<open>What the function draws: nothing when the query is empty, else one bar per result.\<close>

definition plot_data_volume_by_hour ::
  "string \<Rightarrow> string \<Rightarrow> row list \<Rightarrow> (string option \<times> nat) list option"
where
  "plot_data_volume_by_hour start_time end_time rows =
     (let results = hourly_counts start_time end_time rows in
      if results = [] then None else Some (map (\<lambda>(h, n, u). (h, n)) results))"





section \<open>Creating the schema\<close>

text \<open>
  A path holds nothing, a database, or a file that is no database. Connecting to a
  path that holds nothing creates an empty database there.
\<close>

datatype db_file = SqliteFile database | OtherFile

type_synonym filesystem = "string \<Rightarrow> db_file option"

definition empty_database :: database where
  "empty_database = \<lparr>db_tables = [], db_indexes = [], db_rows = [], db_seq = 0\<rparr>"

definition sqlite3_connect :: "filesystem \<Rightarrow> string \<Rightarrow> error + database" where
  "sqlite3_connect fs path =
     (case fs path of
        None \<Rightarrow> Inr empty_database
      | Some (SqliteFile d) \<Rightarrow> Inr d
      | Some OtherFile \<Rightarrow> Inl DatabaseError)"

text \<open>\<^verbatim>\<open>CREATE TABLE IF NOT EXISTS\<close>: a table of that name is left as it is.\<close>

definition create_table_if_not_exists :: "string \<Rightarrow> string list \<Rightarrow> database \<Rightarrow> database" where
  "create_table_if_not_exists name cols d =
     (if name \<in> set (map fst (db_tables d)) then d
      else d\<lparr>db_tables := db_tables d @ [(name, cols)]\<rparr>)"

text \<open>
  \<^verbatim>\<open>CREATE INDEX IF NOT EXISTS\<close>: an index of that name is left as it is; a new one
  needs the table to have the column.
\<close>

definition create_index_if_not_exists ::
  "string \<Rightarrow> string \<Rightarrow> string \<Rightarrow> database \<Rightarrow> error + database"
where
  "create_index_if_not_exists name tbl col d =
     (if name \<in> set (map fst (db_indexes d)) then Inr d
      else
        case map_of (db_tables d) tbl of
          None \<Rightarrow> Inl OperationalError
        | Some cols \<Rightarrow>
            if col \<in> set cols then Inr (d\<lparr>db_indexes := db_indexes d @ [(name, tbl, col)]\<rparr>)
            else Inl OperationalError)"

definition brainwaves_raw_columns :: "string list" where
  "brainwaves_raw_columns = [''id'', ''timestamp'', ''data'', ''user_name'']"

definition aggregated_data_columns :: "string list" where
  "aggregated_data_columns =
     [''id'', ''start_timestamp'', ''end_timestamp'', ''avg_values'', ''record_count'', ''info'']"

text \<open>
  \<^verbatim>\<open>setup_database\<close> of \<^verbatim>\<open>setup_database.py\<close> creates both tables and the index.
  An exception is not caught there.
\<close>

definition setup_database :: "filesystem \<Rightarrow> string \<Rightarrow> error + filesystem" where
  "setup_database fs path =
     (case sqlite3_connect fs path of
        Inl err \<Rightarrow> Inl err
      | Inr d \<Rightarrow>
          (case create_index_if_not_exists ''idx_timestamp'' ''brainwaves_raw'' ''timestamp''
                  (create_table_if_not_exists ''brainwaves_raw'' brainwaves_raw_columns d) of
             Inl err \<Rightarrow> Inl err
           | Inr d' \<Rightarrow>
               Inr (fs(path \<mapsto> SqliteFile
                     (create_table_if_not_exists ''aggregated_data'' aggregated_data_columns d')))))"

text \<open>
  \<^verbatim>\<open>NeurosityApp.init_database\<close> creates the table \<^verbatim>\<open>brainwaves_raw\<close> and the
  index, and keeps the connection. On an exception the process exits.
\<close>

definition init_database :: "filesystem \<Rightarrow> string \<Rightarrow> error + filesystem \<times> connection" where
  "init_database fs path =
     (case sqlite3_connect fs path of
        Inl err \<Rightarrow> Inl err
      | Inr d \<Rightarrow>
          (case create_index_if_not_exists ''idx_timestamp'' ''brainwaves_raw'' ''timestamp''
                  (create_table_if_not_exists ''brainwaves_raw'' brainwaves_raw_columns d) of
             Inl err \<Rightarrow> Inl err
           | Inr d' \<Rightarrow> Inr (fs(path \<mapsto> SqliteFile d'), database.extend d' \<lparr>pending = []\<rparr>)))"

text \<open>Whether a database has a table or an index of a given name.\<close>

definition has_table :: "string \<Rightarrow> 'a database_scheme \<Rightarrow> bool" where
  "has_table name d = (name \<in> set (map fst (db_tables d)))"

definition has_index :: "string \<Rightarrow> 'a database_scheme \<Rightarrow> bool" where
  "has_index name d = (name \<in> set (map fst (db_indexes d)))"

text \<open>
  One database keeps what another holds: the rows and the row counter are the same,
  the tables and the indexes of the first are still there, in place, and names that
  were distinct are still distinct.
\<close>

definition keeps :: "database \<Rightarrow> database \<Rightarrow> bool" where
  "keeps d d' =
     (db_rows d' = db_rows d \<and> db_seq d' = db_seq d
      \<and> take (length (db_tables d)) (db_tables d') = db_tables d
      \<and> take (length (db_indexes d)) (db_indexes d') = db_indexes d
      \<and> (distinct (map fst (db_tables d)) \<longrightarrow> distinct (map fst (db_tables d')))
      \<and> (distinct (map fst (db_indexes d)) \<longrightarrow> distinct (map fst (db_indexes d'))))"

section \<open>Sample data\<close>

text \<open>A fresh application with a given buffer size, and payloads with a timestamp.\<close>

definition empty_connection :: connection where
  "empty_connection = \<lparr>db_tables = [], db_indexes = [], db_rows = [], db_seq = 0, pending = []\<rparr>"

definition example_app :: "int \<Rightarrow> app" where
  "example_app t = \<lparr>buffer = [], buffer_size = t, user_name = ''alice'', conn = empty_connection\<rparr>"

definition fixed_clock :: clock where
  "fixed_clock i = ''2024-01-01T12:00:00''"

definition sample :: "string \<Rightarrow> pydict" where
  "sample ts = [(''timestamp'', JStr ts), (''data'', JArr [])]"

definition three_ingests :: "(event \<times> clock \<times> fault) list" where
  "three_ingests =
     [(Ingest (sample ''2024-01-01T10:00:00''), fixed_clock, NoFault),
      (Ingest (sample ''2024-01-01T10:30:00''), fixed_clock, NoFault),
      (Ingest (sample ''2024-01-01T11:15:00''), fixed_clock, NoFault)]"


definition two_failing_ingests :: "(event \<times> clock \<times> fault) list" where
  "two_failing_ingests =
     [(Ingest (sample ''2024-01-01T10:00:00''), fixed_clock, CommitFails),
      (Ingest (sample ''2024-01-01T10:30:00''), fixed_clock, CommitFails)]"

definition retry_after_failure :: "(event \<times> clock \<times> fault) list" where
  "retry_after_failure =
     [(Ingest (sample ''2024-01-01T10:00:00''), fixed_clock, NoFault),
      (Flush, fixed_clock, CommitFails),
      (Flush, fixed_clock, NoFault)]"


definition alice_session :: "(event \<times> clock \<times> fault) list" where
  "alice_session = three_ingests @ [(Flush, fixed_clock, NoFault)]"

definition alice_rows :: "row list" where
  "alice_rows = db_rows (conn (snd (run alice_session (example_app 10))))"

definition populated_database :: database where
  "populated_database =
     \<lparr>db_tables = [(''brainwaves_raw'', brainwaves_raw_columns)],
      db_indexes = [(''idx_timestamp'', ''brainwaves_raw'', ''timestamp'')],
      db_rows = alice_rows, db_seq = 3\<rparr>"

definition populated_fs :: filesystem where
  "populated_fs = Map.empty(''neurosity_data.db'' \<mapsto> SqliteFile populated_database)"

definition initialised_database :: database where
  "initialised_database =
     \<lparr>db_tables = [(''brainwaves_raw'', brainwaves_raw_columns)],
      db_indexes = [(''idx_timestamp'', ''brainwaves_raw'', ''timestamp'')],
      db_rows = [], db_seq = 0\<rparr>"

section \<open>Decoding what was serialised\<close>

subsection \<open>Strings\<close>

lemma of_char_less_256: "(of_char c :: nat) < 256"
  by (cases c) (simp add: of_char_def)

lemma hex_val_hex_digit: "d < 16 \<Longrightarrow> hex_val (hex_digit d) = Some d"
  by (auto simp add: hex_val_def hex_digit_def Let_def)

lemma unicode_escape_hex:
  "unicode_escape (CHR ''0'' # CHR ''0'' # hex_digit (of_char c div 16) # hex_digit (of_char c mod 16) # rest)
     = Inr c"
proof -
  have d: "(of_char c :: nat) div 16 < 16" using of_char_less_256[of c] by arith
  have m: "(of_char c :: nat) mod 16 < 16" by simp
  have z: "hex_val (CHR ''0'') = Some 0" by (simp add: hex_val_def)
  have "char_of (16 * ((of_char c :: nat) div 16) + of_char c mod 16) = c" by simp
  then show ?thesis
    by (simp add: unicode_escape_def z hex_val_hex_digit[OF d] hex_val_hex_digit[OF m])
qed

lemma scan_string_escape:
  "scan_string (escape_char c @ s) =
     (case scan_string s of Inl err \<Rightarrow> Inl err | Inr (t, rest) \<Rightarrow> Inr (c # t, rest))"
proof -
  consider (quote) "c = CHR 0x22" | (bs) "c = CHR 0x5C" | (nl) "c = CHR 0x0A" | (cr) "c = CHR 0x0D"
    | (tab) "c = CHR 0x09" | (b) "c = CHR 0x08" | (f) "c = CHR 0x0C"
    | (u) "c \<noteq> CHR 0x22" "c \<noteq> CHR 0x5C" "c \<noteq> CHR 0x0A" "c \<noteq> CHR 0x0D" "c \<noteq> CHR 0x09"
        "c \<noteq> CHR 0x08" "c \<noteq> CHR 0x0C" "(of_char c :: nat) < 32 \<or> 126 < (of_char c :: nat)"
    | (plain) "c \<noteq> CHR 0x22" "c \<noteq> CHR 0x5C" "\<not> (of_char c :: nat) < 32"
        "\<not> ((of_char c :: nat) < 32 \<or> 126 < (of_char c :: nat))"
        "c \<noteq> CHR 0x0A" "c \<noteq> CHR 0x0D" "c \<noteq> CHR 0x09" "c \<noteq> CHR 0x08" "c \<noteq> CHR 0x0C"
    by fastforce
  then show ?thesis
  proof cases
    case u
    then have e: "escape_char c = [CHR 0x5C, CHR ''u'', CHR ''0'', CHR ''0'',
              hex_digit (of_char c div 16), hex_digit (of_char c mod 16)]"
      by (simp add: escape_char_def)
    show ?thesis unfolding e by (simp add: unicode_escape_hex)
  next
    case plain
    then have e: "escape_char c = [c]" by (simp add: escape_char_def)
    show ?thesis unfolding e using plain by simp
  qed (simp_all add: escape_char_def unescape_def split: sum.splits)
qed

lemma scan_string_roundtrip:
  "scan_string (concat (map escape_char s) @ CHR 0x22 # rest) = Inr (s, rest)"
proof (induction s)
  case Nil
  show ?case by simp
next
  case (Cons c s)
  have "scan_string (concat (map escape_char (c # s)) @ CHR 0x22 # rest)
      = scan_string (escape_char c @ (concat (map escape_char s) @ CHR 0x22 # rest))" by simp
  also have "\<dots> = Inr (c # s, rest)" unfolding scan_string_escape Cons.IH by simp
  finally show ?case .
qed


subsection \<open>Integers\<close>











subsection \<open>Values\<close>








lemma parse_value_quote:
  "parse_value (Suc n) (CHR 0x22 # cs) =
     (case scan_string cs of Inl err \<Rightarrow> Inl err | Inr (str, rest) \<Rightarrow> Inr (JStr str, rest))"
  by simp












lemma scan_key:
  "scan_string (tl (dumps_str k @ rest)) = Inr (k, rest)"
  by (simp add: dumps_str_def scan_string_roundtrip)











definition epoch_ms_payload :: pydict where
  "epoch_ms_payload = [(''timestamp'', JInt 1700000000000), (''data'', JArr [])]"

text \<open>The application after one payload went through the callback; with buffer size 1 the callback has flushed it.\<close>

definition after_callback :: "pydict \<Rightarrow> app" where
  "after_callback P =
     (case brainwave_callback ''2024-01-01T12:00:00'' fixed_clock NoFault P (example_app 1) of
        Inl err \<Rightarrow> example_app 1
      | Inr (out, st) \<Rightarrow> st)"

section \<open>Properties of the buffered writer\<close>

lemma flush_buffer_size: "flush_buffer clk flt st = (out, st') \<Longrightarrow> buffer_size st' = buffer_size st"
  by (auto simp add: flush_buffer_def split: prod.splits option.splits if_splits)

lemma flush_user_name: "flush_buffer clk flt st = (out, st') \<Longrightarrow> user_name st' = user_name st"
  by (auto simp add: flush_buffer_def split: prod.splits option.splits if_splits)

lemma flush_cases:
  "flush_buffer clk flt st = (out, st') \<Longrightarrow>
     (out = Skipped \<and> buffer st = [] \<and> st' = st)
   \<or> (\<exists>e. out = Failed e \<and> buffer st \<noteq> [] \<and> buffer st' = buffer st)
   \<or> (out = Flushed (length (buffer st)) \<and> buffer st \<noteq> [] \<and> buffer st' = [])"
  by (auto simp add: flush_buffer_def split: prod.splits option.splits if_splits)

lemma buffer_data_size: "buffer_data clk flt d st = (out, st') \<Longrightarrow> buffer_size st' = buffer_size st"
  by (auto simp add: buffer_data_def Let_def split: prod.splits if_splits dest: flush_buffer_size)

lemma buffer_data_cases:
  assumes "buffer_data clk flt d st = (out, st')"
  shows "(out = None \<and> int (Suc (length (buffer st))) < buffer_size st \<and> buffer st' = buffer st @ [d])
   \<or> (buffer_size st \<le> int (Suc (length (buffer st))) \<and>
        ((\<exists>e. out = Some (Failed e) \<and> buffer st' = buffer st @ [d])
         \<or> (out = Some (Flushed (Suc (length (buffer st)))) \<and> buffer st' = [])))"
proof (cases "buffer_size st \<le> int (Suc (length (buffer st)))")
  case True
  let ?s = "st\<lparr>buffer := buffer st @ [d]\<rparr>"
  obtain o1 s1 where f: "flush_buffer clk flt ?s = (o1, s1)" by (cases "flush_buffer clk flt ?s")
  with assms True have eq: "out = Some o1" "st' = s1"
    by (simp_all add: buffer_data_def Let_def)
  from flush_cases[OF f] show ?thesis using True eq by auto
next
  case False
  with assms show ?thesis by (auto simp add: buffer_data_def Let_def)
qed

lemma step_size: "step ev st = (out, st') \<Longrightarrow> buffer_size st' = buffer_size st"
proof (cases ev)
  case (fields e clk flt)
  assume s: "step ev st = (out, st')"
  show ?thesis
  proof (cases e)
    case (Ingest d) with fields s show ?thesis by (simp add: buffer_data_size)
  next
    case Flush
    with fields s show ?thesis by (auto split: prod.splits dest: flush_buffer_size)
  qed
qed

lemma run_size: "run evs st = (outs, st') \<Longrightarrow> buffer_size st' = buffer_size st"
proof (induction evs arbitrary: st outs)
  case Nil then show ?case by simp
next
  case (Cons ev evs)
  obtain o1 s1 where s: "step ev st = (o1, s1)" by (cases "step ev st")
  obtain os where r: "run evs s1 = (os, st')" using Cons.prems s by (cases "run evs s1") simp
  from Cons.IH[OF r] step_size[OF s] show ?case by simp
qed



lemma run_prefix:
  "run evs st = (outs, st') \<Longrightarrow> fst (run (take k evs) st) = take k outs"
proof (induction evs arbitrary: st outs k)
  case Nil then show ?case by simp
next
  case (Cons ev evs)
  obtain o1 s1 where s: "step ev st = (o1, s1)" by (cases "step ev st")
  obtain os where r: "run evs s1 = (os, st')" using Cons.prems s by (cases "run evs s1") simp
  from Cons.prems s r have outs: "outs = o1 # os" by simp
  show ?case
  proof (cases k)
    case 0 then show ?thesis by simp
  next
    case (Suc j)
    from Cons.IH[OF r, of j] show ?thesis using Suc s outs by (auto split: prod.splits)
  qed
qed

lemma bounded_gen:
  assumes "run evs st = (outs, st')"
    and "\<forall>out\<in>set outs. \<not> failed out"
    and "int (length (buffer st)) < max 1 (buffer_size st)"
  shows "int (length (buffer st')) < max 1 (buffer_size st)"
  using assms
proof (induction evs arbitrary: st outs)
  case Nil then show ?case by simp
next
  case (Cons ev evs)
  obtain o1 s1 where s: "step ev st = (o1, s1)" by (cases "step ev st")
  obtain os where r: "run evs s1 = (os, st')" using Cons.prems(1) s by (cases "run evs s1") simp
  from Cons.prems(1) s r have outs: "outs = o1 # os" by simp
  have sz: "buffer_size s1 = buffer_size st" using step_size[OF s] .
  have nf: "\<not> failed o1" "\<forall>out\<in>set os. \<not> failed out" using Cons.prems(2) outs by simp_all
  obtain e clk flt where ev: "ev = (e, clk, flt)" by (cases ev)
  have "int (length (buffer s1)) < max 1 (buffer_size s1)"
  proof (cases e)
    case (Ingest d)
    with s ev have "buffer_data clk flt d st = (o1, s1)" by simp
    from buffer_data_cases[OF this] nf(1) show ?thesis
      using sz by (auto simp add: failed_def)
  next
    case Flush
    with s ev obtain o2 where f: "flush_buffer clk flt st = (o2, s1)" and o1: "o1 = Some o2"
      by (auto split: prod.splits)
    from flush_cases[OF f] nf(1) o1 show ?thesis
      using sz Cons.prems(3) by (auto simp add: failed_def)
  qed
  from Cons.IH[OF r nf(2) this] sz show ?case by simp
qed





lemma three_ingests_run:
  "fst (run three_ingests (example_app 2)) = [None, Some (Flushed 2), None]"
  by code_simp


text \<open>
  C4. As long as no flush fails, the buffer stays below the configured size after
  every operation of a run (below 1, that is empty, when the size is not
  positive), so it never exceeds a size that is not negative. A flush that succeeds
  leaves the buffer empty and reports the number of records it held; a flush that
  fails leaves the buffer as it was, so that with failing flushes the buffer grows
  past the configured size.
\<close>

theorem buffer_bounded_while_flushes_succeed:
  assumes "run evs st = (outs, st')"
    and "\<forall>out\<in>set outs. \<not> failed out"
    and "int (length (buffer st)) < max 1 (buffer_size st)"
  shows "(\<forall>k. int (length (buffer (snd (run (take k evs) st)))) < max 1 (buffer_size st))
       \<and> (0 \<le> buffer_size st \<longrightarrow>
            (\<forall>k. int (length (buffer (snd (run (take k evs) st)))) \<le> buffer_size st))
       \<and> (\<forall>clk flt s n s'. flush_buffer clk flt s = (Flushed n, s') \<longrightarrow>
            buffer s' = [] \<and> n = length (buffer s))
       \<and> (\<forall>clk flt s e s'. flush_buffer clk flt s = (Failed e, s') \<longrightarrow> buffer s' = buffer s)"
proof -
  have a: "int (length (buffer (snd (run (take k evs) st)))) < max 1 (buffer_size st)" for k
  proof -
    obtain os s1 where r: "run (take k evs) st = (os, s1)" by (cases "run (take k evs) st")
    from run_prefix[OF assms(1), of k] r have "os = take k outs" by simp
    then have "\<forall>out\<in>set os. \<not> failed out" using assms(2) by (auto dest: in_set_takeD)
    from bounded_gen[OF r this assms(3)] r show ?thesis by simp
  qed
  have b: "0 \<le> buffer_size st \<longrightarrow>
      (\<forall>k. int (length (buffer (snd (run (take k evs) st)))) \<le> buffer_size st)"
  proof (intro impI allI)
    fix k assume "0 \<le> buffer_size st"
    with a[of k] show "int (length (buffer (snd (run (take k evs) st)))) \<le> buffer_size st"
      by (cases "buffer_size st = 0") auto
  qed
  have c: "\<forall>clk flt s n s'. flush_buffer clk flt s = (Flushed n, s') \<longrightarrow>
            buffer s' = [] \<and> n = length (buffer s)"
    by (auto dest: flush_cases)
  have d: "\<forall>clk flt s e s'. flush_buffer clk flt s = (Failed e, s') \<longrightarrow> buffer s' = buffer s"
    by (auto dest: flush_cases)
  from a b c d show ?thesis by blast
qed

theorem buffer_bounded_while_flushes_succeed_witness:
  "int (length (buffer (snd (run (take 2 three_ingests) (example_app 2))))) \<le> buffer_size (example_app 2)"
proof -
  have 1: "run three_ingests (example_app 2) =
      (fst (run three_ingests (example_app 2)), snd (run three_ingests (example_app 2)))" by simp
  have 2: "\<forall>out\<in>set (fst (run three_ingests (example_app 2))). \<not> failed out"
    by (simp add: three_ingests_run failed_def)
  have 3: "int (length (buffer (example_app 2))) < max 1 (buffer_size (example_app 2))"
    by (simp add: example_app_def)
  have 4: "0 \<le> buffer_size (example_app 2)" by (simp add: example_app_def)
  from buffer_bounded_while_flushes_succeed[OF 1 2 3] 4 show ?thesis by blast
qed

theorem buffer_exceeds_size_after_failed_flushes:
  "\<not> int (length (buffer (snd (run two_failing_ingests (example_app 1))))) \<le> buffer_size (example_app 1)"
  by code_simp



text \<open>
  C1. A failing flush keeps the buffer and a later flush writes every buffered
  record, but the rows that the failed attempt left in the open transaction are
  committed with them: nothing rolls the transaction back. One record is
  ingested, a flush fails at COMMIT, the next flush succeeds: the store then holds
  two rows for the one record.
\<close>

theorem retry_after_failed_commit_stores_twice:
  "fst (run retry_after_failure (example_app 10))
     = [None, Some (Failed OperationalError), Some (Flushed 1)]
   \<and> map row_data (db_rows (conn (snd (run retry_after_failure (example_app 10)))))
     = [json_dumps (JObj (sample ''2024-01-01T10:00:00'')),
        json_dumps (JObj (sample ''2024-01-01T10:00:00''))]
   \<and> map row_id (db_rows (conn (snd (run retry_after_failure (example_app 10))))) = [1, 2]"
  by code_simp

section \<open>Properties of the reader\<close>












lemma alice_rows_value:
  "alice_rows =
     [\<lparr>row_id = 1, row_timestamp = Some ''2024-01-01T10:00:00'',
        row_data = json_dumps (JObj (sample ''2024-01-01T10:00:00'')), row_user_name = ''alice''\<rparr>,
      \<lparr>row_id = 2, row_timestamp = Some ''2024-01-01T10:30:00'',
        row_data = json_dumps (JObj (sample ''2024-01-01T10:30:00'')), row_user_name = ''alice''\<rparr>,
      \<lparr>row_id = 3, row_timestamp = Some ''2024-01-01T11:15:00'',
        row_data = json_dumps (JObj (sample ''2024-01-01T11:15:00'')), row_user_name = ''alice''\<rparr>]"
  by code_simp


lemma alice_summaries:
  "get_recent_data 2 alice_rows =
     Inr [\<lparr>s_timestamp = Some ''2024-01-01T11:15:00'', s_user_name = ''alice'', s_channels = 0,
            s_deviceId = JStr ''unknown''\<rparr>,
          \<lparr>s_timestamp = Some ''2024-01-01T10:30:00'', s_user_name = ''alice'', s_channels = 0,
            s_deviceId = JStr ''unknown''\<rparr>]"
  by code_simp


lemma alice_hourly:
  "hourly_counts ''2024-01-01T00:00:00'' ''2024-01-01T23:59:59'' alice_rows
     = [(Some ''2024-01-01T10'', 2, ''alice''), (Some ''2024-01-01T11'', 1, ''alice'')]"
  by code_simp







lemma sorted_fst_sort:
  fixes ps :: "('a::linorder \<times> 'b::linorder) list"
  shows "sorted (map fst (sort ps))"
proof -
  have "sorted (sort ps)" by simp
  moreover have "sorted qs \<Longrightarrow> sorted (map fst qs)" for qs :: "('a \<times> 'b) list"
    by (induction qs) (auto simp add: less_eq_prod_def)
  ultimately show ?thesis by blast
qed

text \<open>
  C7. The hourly-count query returns one entry per pair of hour prefix (the first
  13 characters of the timestamp text) and owner that occurs among the rows whose
  timestamp lies within the bounds, with the number of those rows, ordered by hour
  prefix ascending. For the rows with timestamps 2024-01-01T10:00:00,
  2024-01-01T10:30:00 and 2024-01-01T11:15:00 owned by alice and the bounds
  2024-01-01T00:00:00 and 2024-01-01T23:59:59 it returns the prefix 2024-01-01T10
  with count 2 and the prefix 2024-01-01T11 with count 1, both for alice.
\<close>

theorem hourly_counts_by_prefix_and_owner:
  "sorted (map fst (hourly_counts start_time end_time rows))
   \<and> distinct (map (\<lambda>(h, n, u). (h, u)) (hourly_counts start_time end_time rows))
   \<and> (\<forall>(h, n, u)\<in>set (hourly_counts start_time end_time rows).
         0 < n \<and> h \<noteq> None
         \<and> n = length (filter (\<lambda>r. \<exists>t. row_timestamp r = Some t \<and> start_time \<le> t \<and> t \<le> end_time
                                      \<and> Some (take 13 t) = h \<and> row_user_name r = u) rows))
   \<and> (\<forall>r\<in>set rows. \<forall>t. row_timestamp r = Some t \<and> start_time \<le> t \<and> t \<le> end_time \<longrightarrow>
         (\<exists>n. (Some (take 13 t), n, row_user_name r) \<in> set (hourly_counts start_time end_time rows)))
   \<and> hourly_counts ''2024-01-01T00:00:00'' ''2024-01-01T23:59:59'' alice_rows
        = [(Some ''2024-01-01T10'', 2, ''alice''), (Some ''2024-01-01T11'', 1, ''alice'')]"
proof -
  let ?sel = "filter (between start_time end_time) rows"
  let ?key = "\<lambda>r. (hour_of r, row_user_name r)"
  let ?groups = "sort (remdups (map ?key ?sel))"
  let ?cnt = "\<lambda>(h, u). (h, length (filter (\<lambda>r. hour_of r = h \<and> row_user_name r = u) ?sel), u)"
  have hc: "hourly_counts start_time end_time rows = map ?cnt ?groups"
    by (simp add: hourly_counts_def Let_def)
  have b: "between start_time end_time r \<longleftrightarrow> (\<exists>t. row_timestamp r = Some t \<and> start_time \<le> t \<and> t \<le> end_time)" for r
    by (cases "row_timestamp r") (simp_all add: between_def)
  have fst_cnt: "map fst (map ?cnt ?groups) = map fst ?groups"
    by (simp add: comp_def case_prod_beta)
  have 1: "sorted (map fst (hourly_counts start_time end_time rows))"
    unfolding hc fst_cnt by (rule sorted_fst_sort)
  have key_cnt: "map (\<lambda>(h, n, u). (h, u)) (map ?cnt ?groups) = ?groups"
    by (simp add: comp_def case_prod_beta)
  have 2: "distinct (map (\<lambda>(h, n, u). (h, u)) (hourly_counts start_time end_time rows))"
    unfolding hc key_cnt by simp
  have cnt_eq: "length (filter (\<lambda>r. hour_of r = h \<and> row_user_name r = u) ?sel)
      = length (filter (\<lambda>r. \<exists>t. row_timestamp r = Some t \<and> start_time \<le> t \<and> t \<le> end_time
                                      \<and> Some (take 13 t) = h \<and> row_user_name r = u) rows)" for h u
  proof -
    have "(between start_time end_time r \<and> hour_of r = h \<and> row_user_name r = u)
        \<longleftrightarrow> (\<exists>t. row_timestamp r = Some t \<and> start_time \<le> t \<and> t \<le> end_time
                                      \<and> Some (take 13 t) = h \<and> row_user_name r = u)" for r
      by (auto simp add: b hour_of_def)
    then show ?thesis by (simp add: conj_commute cong: conj_cong)
  qed
  have 3: "\<forall>(h, n, u)\<in>set (hourly_counts start_time end_time rows).
         0 < n \<and> h \<noteq> None
         \<and> n = length (filter (\<lambda>r. \<exists>t. row_timestamp r = Some t \<and> start_time \<le> t \<and> t \<le> end_time
                                      \<and> Some (take 13 t) = h \<and> row_user_name r = u) rows)"
  proof (clarify)
    fix h n u assume "(h, n, u) \<in> set (hourly_counts start_time end_time rows)"
    then obtain g where g: "g \<in> set ?groups" and e: "(h, n, u) = ?cnt g" unfolding hc by auto
    from e have g_eq: "g = (h, u)"
      and n: "n = length (filter (\<lambda>r. hour_of r = h \<and> row_user_name r = u) ?sel)"
      by (cases g, simp)+
    from g g_eq obtain r where r: "r \<in> set ?sel" "hour_of r = h" "row_user_name r = u" by auto
    then have "r \<in> set (filter (\<lambda>r. hour_of r = h \<and> row_user_name r = u) ?sel)" by simp
    then have pos: "0 < n" unfolding n by (rule length_pos_if_in_set)
    from r(1,2) have hn: "h \<noteq> None" by (auto simp add: b hour_of_def)
    have n2: "n = length (filter (\<lambda>r. \<exists>t. row_timestamp r = Some t \<and> start_time \<le> t \<and> t \<le> end_time
                                      \<and> Some (take 13 t) = h \<and> row_user_name r = u) rows)"
      unfolding n by (rule cnt_eq)
    from pos hn n2
    show "0 < n \<and> h \<noteq> None
         \<and> n = length (filter (\<lambda>r. \<exists>t. row_timestamp r = Some t \<and> start_time \<le> t \<and> t \<le> end_time
                                      \<and> Some (take 13 t) = h \<and> row_user_name r = u) rows)"
      by blast
  qed
  have 4: "\<forall>r\<in>set rows. \<forall>t. row_timestamp r = Some t \<and> start_time \<le> t \<and> t \<le> end_time \<longrightarrow>
         (\<exists>n. (Some (take 13 t), n, row_user_name r) \<in> set (hourly_counts start_time end_time rows))"
  proof (intro ballI allI impI)
    fix r t assume r: "r \<in> set rows" and t: "row_timestamp r = Some t \<and> start_time \<le> t \<and> t \<le> end_time"
    then have "r \<in> set ?sel" by (auto simp add: b)
    then have "?key r \<in> set ?groups" by auto
    moreover have "?key r = (Some (take 13 t), row_user_name r)" using t by (simp add: hour_of_def)
    ultimately have g: "(Some (take 13 t), row_user_name r) \<in> set ?groups" by simp
    let ?n = "length (filter (\<lambda>x. hour_of x = Some (take 13 t) \<and> row_user_name x = row_user_name r) ?sel)"
    have "?cnt (Some (take 13 t), row_user_name r) = (Some (take 13 t), ?n, row_user_name r)" by simp
    with g have "(Some (take 13 t), ?n, row_user_name r) \<in> set (map ?cnt ?groups)"
      by (metis (no_types, lifting) image_eqI list.set_map)
    then have "(Some (take 13 t), ?n, row_user_name r) \<in> set (hourly_counts start_time end_time rows)"
      unfolding hc .
    then show "\<exists>n. (Some (take 13 t), n, row_user_name r) \<in> set (hourly_counts start_time end_time rows)"
      by (rule exI)
  qed
  from 1 2 3 4 alice_hourly show ?thesis by blast
qed


theorem hourly_counts_by_prefix_and_owner_witness:
  "sorted (map fst (hourly_counts ''2024-01-01T00:00:00'' ''2024-01-01T23:59:59'' alice_rows))
   \<and> (\<exists>n. (Some ''2024-01-01T10'', n, ''alice'')
          \<in> set (hourly_counts ''2024-01-01T00:00:00'' ''2024-01-01T23:59:59'' alice_rows))"
proof -
  let ?r = "\<lparr>row_id = 1, row_timestamp = Some ''2024-01-01T10:00:00'',
        row_data = json_dumps (JObj (sample ''2024-01-01T10:00:00'')), row_user_name = ''alice''\<rparr>"
  have r: "?r \<in> set alice_rows" by (simp add: alice_rows_value)
  have t: "row_timestamp ?r = Some ''2024-01-01T10:00:00''
      \<and> ''2024-01-01T00:00:00'' \<le> ''2024-01-01T10:00:00''
      \<and> ''2024-01-01T10:00:00'' \<le> ''2024-01-01T23:59:59''" by simp
  from hourly_counts_by_prefix_and_owner[of "''2024-01-01T00:00:00''" "''2024-01-01T23:59:59''" alice_rows]
  have s: "sorted (map fst (hourly_counts ''2024-01-01T00:00:00'' ''2024-01-01T23:59:59'' alice_rows))"
    and a: "\<forall>r\<in>set alice_rows. \<forall>t. row_timestamp r = Some t \<and> ''2024-01-01T00:00:00'' \<le> t
              \<and> t \<le> ''2024-01-01T23:59:59'' \<longrightarrow>
         (\<exists>n. (Some (take 13 t), n, row_user_name r)
            \<in> set (hourly_counts ''2024-01-01T00:00:00'' ''2024-01-01T23:59:59'' alice_rows))"
    by blast+
  from a r t have "\<exists>n. (Some (take 13 ''2024-01-01T10:00:00''), n, row_user_name ?r)
            \<in> set (hourly_counts ''2024-01-01T00:00:00'' ''2024-01-01T23:59:59'' alice_rows)"
    by blast
  then have "\<exists>n. (Some ''2024-01-01T10'', n, ''alice'')
          \<in> set (hourly_counts ''2024-01-01T00:00:00'' ''2024-01-01T23:59:59'' alice_rows)"
    by simp
  with s show ?thesis by blast
qed

section \<open>Properties of the schema creation\<close>

lemma keeps_refl: "keeps d d"
  by (simp add: keeps_def)

lemma keeps_trans: "keeps a b \<Longrightarrow> keeps b c \<Longrightarrow> keeps a c"
proof -
  assume ab: "keeps a b" and bc: "keeps b c"
  have t: "take (length xs) ys = xs \<Longrightarrow> take (length ys) zs = ys \<Longrightarrow> take (length xs) zs = xs"
    for xs ys zs :: "'a list"
    by (metis append_eq_conv_conj append_take_drop_id append.assoc)
  from ab bc show ?thesis
    unfolding keeps_def by (auto intro: t)
qed

lemma create_table_has: "has_table name (create_table_if_not_exists name cols d)"
  by (simp add: has_table_def create_table_if_not_exists_def)

lemma create_table_noop: "has_table name d \<Longrightarrow> create_table_if_not_exists name cols d = d"
  by (simp add: has_table_def create_table_if_not_exists_def)

lemma create_table_keeps: "keeps d (create_table_if_not_exists name cols d)"
  by (auto simp add: keeps_def create_table_if_not_exists_def)

lemma create_table_other:
  "has_table other d \<Longrightarrow> has_table other (create_table_if_not_exists name cols d)"
  "has_index idx (create_table_if_not_exists name cols d) = has_index idx d"
  by (auto simp add: has_table_def has_index_def create_table_if_not_exists_def)

lemma create_index_Inr:
  assumes "create_index_if_not_exists name tbl col d = Inr d'"
  shows "has_index name d'" and "keeps d d'" and "db_tables d' = db_tables d"
    and "create_index_if_not_exists name tbl col d' = Inr d'"
  using assms
  by (auto simp add: create_index_if_not_exists_def has_index_def keeps_def
      split: if_splits option.splits)

lemma create_index_noop: "has_index name d \<Longrightarrow> create_index_if_not_exists name tbl col d = Inr d"
  by (simp add: has_index_def create_index_if_not_exists_def)

lemma create_index_fresh:
  "create_index_if_not_exists ''idx_timestamp'' ''brainwaves_raw'' ''timestamp''
     (create_table_if_not_exists ''brainwaves_raw'' brainwaves_raw_columns empty_database)
   = Inr (create_table_if_not_exists ''brainwaves_raw'' brainwaves_raw_columns empty_database
            \<lparr>db_indexes := [(''idx_timestamp'', ''brainwaves_raw'', ''timestamp'')]\<rparr>)"
  by (simp add: create_index_if_not_exists_def create_table_if_not_exists_def empty_database_def
      brainwaves_raw_columns_def)

lemma setup_database_Inr:
  assumes "setup_database fs path = Inr fs'"
  shows "\<exists>d'. fs' path = Some (SqliteFile d')
           \<and> has_table ''brainwaves_raw'' d' \<and> has_index ''idx_timestamp'' d'
           \<and> has_table ''aggregated_data'' d'
           \<and> setup_database fs' path = Inr fs'
           \<and> (\<forall>d. fs path = Some (SqliteFile d) \<longrightarrow> keeps d d')"
proof -
  let ?t1 = "create_table_if_not_exists ''brainwaves_raw'' brainwaves_raw_columns"
  let ?ix = "create_index_if_not_exists ''idx_timestamp'' ''brainwaves_raw'' ''timestamp''"
  let ?t2 = "create_table_if_not_exists ''aggregated_data'' aggregated_data_columns"
  from assms obtain d0 d2 where
    c: "sqlite3_connect fs path = Inr d0" and i: "?ix (?t1 d0) = Inr d2"
    and fs': "fs' = fs(path \<mapsto> SqliteFile (?t2 d2))"
    by (auto simp add: setup_database_def split: sum.splits)
  let ?d' = "?t2 d2"
  have p: "fs' path = Some (SqliteFile ?d')" using fs' by simp
  have ht1: "has_table ''brainwaves_raw'' d2"
    using create_index_Inr(3)[OF i] create_table_has[of "''brainwaves_raw''"]
    by (simp add: has_table_def)
  have h1: "has_table ''brainwaves_raw'' ?d'" using ht1 by (rule create_table_other(1))
  have h2: "has_index ''idx_timestamp'' ?d'"
    using create_index_Inr(1)[OF i] by (simp add: create_table_other(2))
  have h3: "has_table ''aggregated_data'' ?d'" by (rule create_table_has)
  have c2: "sqlite3_connect fs' path = Inr ?d'" using p by (simp add: sqlite3_connect_def)
  have again: "setup_database fs' path = Inr fs'"
    using c2 p by (simp add: setup_database_def create_table_noop[OF h1] create_index_noop[OF h2]
        create_table_noop[OF h3] fun_upd_idem)
  have k: "keeps d0 ?d'"
    using keeps_trans[OF keeps_trans[OF create_table_keeps create_index_Inr(2)[OF i]] create_table_keeps] .
  have "\<forall>d. fs path = Some (SqliteFile d) \<longrightarrow> keeps d ?d'"
    using c k by (auto simp add: sqlite3_connect_def)
  with p h1 h2 h3 again show ?thesis by blast
qed

lemma init_database_Inr:
  assumes "init_database fs path = Inr (fs', c)"
  shows "\<exists>d'. fs' path = Some (SqliteFile d') \<and> c = database.extend d' \<lparr>pending = []\<rparr>
           \<and> has_table ''brainwaves_raw'' d' \<and> has_index ''idx_timestamp'' d'
           \<and> init_database fs' path = Inr (fs', c)
           \<and> (\<forall>d. fs path = Some (SqliteFile d) \<longrightarrow> keeps d d' \<and> db_tables d' = db_tables (create_table_if_not_exists ''brainwaves_raw'' brainwaves_raw_columns d))"
proof -
  let ?t1 = "create_table_if_not_exists ''brainwaves_raw'' brainwaves_raw_columns"
  let ?ix = "create_index_if_not_exists ''idx_timestamp'' ''brainwaves_raw'' ''timestamp''"
  from assms obtain d0 d2 where
    c: "sqlite3_connect fs path = Inr d0" and i: "?ix (?t1 d0) = Inr d2"
    and fs': "fs' = fs(path \<mapsto> SqliteFile d2)" and cc: "c = database.extend d2 \<lparr>pending = []\<rparr>"
    by (auto simp add: init_database_def split: sum.splits)
  have p: "fs' path = Some (SqliteFile d2)" using fs' by simp
  have h1: "has_table ''brainwaves_raw'' d2"
    using create_index_Inr(3)[OF i] create_table_has[of "''brainwaves_raw''"]
    by (simp add: has_table_def)
  have h2: "has_index ''idx_timestamp'' d2" using create_index_Inr(1)[OF i] .
  have c2: "sqlite3_connect fs' path = Inr d2" using p by (simp add: sqlite3_connect_def)
  have again: "init_database fs' path = Inr (fs', c)"
    using c2 p cc by (simp add: init_database_def create_table_noop[OF h1] create_index_noop[OF h2]
        fun_upd_idem)
  have k: "keeps d0 d2"
    using keeps_trans[OF create_table_keeps create_index_Inr(2)[OF i]] .
  have "\<forall>d. fs path = Some (SqliteFile d) \<longrightarrow> keeps d d2 \<and> db_tables d2 = db_tables (?t1 d)"
    using c k create_index_Inr(3)[OF i] by (auto simp add: sqlite3_connect_def)
  with p h1 h2 again cc show ?thesis by blast
qed

lemma fresh_path_succeeds:
  assumes "fs path = None"
  shows "\<exists>fs'. setup_database fs path = Inr fs'" and "\<exists>fs' c. init_database fs path = Inr (fs', c)"
  using assms
  by (simp_all add: setup_database_def init_database_def sqlite3_connect_def create_index_fresh)

text \<open>
  C3. \<^verbatim>\<open>setup_database\<close> leaves at the path a database with the primary table,
  its timestamp index and the aggregate table; \<^verbatim>\<open>NeurosityApp.init_database\<close>
  leaves one with the primary table and the index and creates no aggregate table.
  Both are idempotent: a second call on the result returns the same result, and a
  call on an existing database keeps its rows and its tables and indexes, adding no
  duplicate. Both succeed on a path that holds nothing.
\<close>

theorem schema_creation_idempotent:
  "(\<forall>fs'. setup_database fs path = Inr fs' \<longrightarrow>
      (\<exists>d'. fs' path = Some (SqliteFile d')
         \<and> has_table ''brainwaves_raw'' d' \<and> has_index ''idx_timestamp'' d'
         \<and> has_table ''aggregated_data'' d'
         \<and> setup_database fs' path = Inr fs'
         \<and> (\<forall>d. fs path = Some (SqliteFile d) \<longrightarrow> keeps d d')))
   \<and> (\<forall>fs' c. init_database fs path = Inr (fs', c) \<longrightarrow>
      (\<exists>d'. fs' path = Some (SqliteFile d') \<and> c = database.extend d' \<lparr>pending = []\<rparr>
         \<and> has_table ''brainwaves_raw'' d' \<and> has_index ''idx_timestamp'' d'
         \<and> init_database fs' path = Inr (fs', c)
         \<and> (\<forall>d. fs path = Some (SqliteFile d) \<longrightarrow>
               keeps d d' \<and> has_table ''aggregated_data'' d' = has_table ''aggregated_data'' d)))
   \<and> (fs path = None \<longrightarrow>
        (\<exists>fs'. setup_database fs path = Inr fs') \<and> (\<exists>fs' c. init_database fs path = Inr (fs', c)))"
proof (intro conjI allI impI)
  fix fs' assume "setup_database fs path = Inr fs'"
  from setup_database_Inr[OF this]
  show "\<exists>d'. fs' path = Some (SqliteFile d')
         \<and> has_table ''brainwaves_raw'' d' \<and> has_index ''idx_timestamp'' d'
         \<and> has_table ''aggregated_data'' d'
         \<and> setup_database fs' path = Inr fs'
         \<and> (\<forall>d. fs path = Some (SqliteFile d) \<longrightarrow> keeps d d')" .
next
  fix fs' c assume "init_database fs path = Inr (fs', c)"
  from init_database_Inr[OF this] obtain d' where
    d': "fs' path = Some (SqliteFile d')" "c = database.extend d' \<lparr>pending = []\<rparr>"
      "has_table ''brainwaves_raw'' d'" "has_index ''idx_timestamp'' d'"
      "init_database fs' path = Inr (fs', c)"
      "\<forall>d. fs path = Some (SqliteFile d) \<longrightarrow> keeps d d' \<and> db_tables d' = db_tables (create_table_if_not_exists ''brainwaves_raw'' brainwaves_raw_columns d)"
    by blast
  have "\<forall>d. fs path = Some (SqliteFile d) \<longrightarrow>
               keeps d d' \<and> has_table ''aggregated_data'' d' = has_table ''aggregated_data'' d"
    using d'(6) by (auto simp add: has_table_def create_table_if_not_exists_def)
  with d'(1-5)
  show "\<exists>d'. fs' path = Some (SqliteFile d') \<and> c = database.extend d' \<lparr>pending = []\<rparr>
         \<and> has_table ''brainwaves_raw'' d' \<and> has_index ''idx_timestamp'' d'
         \<and> init_database fs' path = Inr (fs', c)
         \<and> (\<forall>d. fs path = Some (SqliteFile d) \<longrightarrow>
               keeps d d' \<and> has_table ''aggregated_data'' d' = has_table ''aggregated_data'' d)"
    by blast
next
  assume "fs path = None"
  then show "\<exists>fs'. setup_database fs path = Inr fs'" by (rule fresh_path_succeeds(1))
next
  assume "fs path = None"
  then show "\<exists>fs' c. init_database fs path = Inr (fs', c)" by (rule fresh_path_succeeds(2))
qed

lemma setup_populated:
  "setup_database populated_fs ''neurosity_data.db''
     = Inr (populated_fs(''neurosity_data.db'' \<mapsto> SqliteFile
         (populated_database\<lparr>db_tables :=
            [(''brainwaves_raw'', brainwaves_raw_columns), (''aggregated_data'', aggregated_data_columns)]\<rparr>)))"
  by (simp add: setup_database_def populated_fs_def sqlite3_connect_def populated_database_def
      create_table_if_not_exists_def create_index_if_not_exists_def)

theorem schema_creation_idempotent_witness:
  "\<exists>fs' d'. setup_database populated_fs ''neurosity_data.db'' = Inr fs'
      \<and> fs' ''neurosity_data.db'' = Some (SqliteFile d')
      \<and> has_table ''aggregated_data'' d'
      \<and> setup_database fs' ''neurosity_data.db'' = Inr fs'
      \<and> db_rows d' = alice_rows
      \<and> distinct (map fst (db_tables d')) \<and> distinct (map fst (db_indexes d'))"
proof -
  obtain fs' where s: "setup_database populated_fs ''neurosity_data.db'' = Inr fs'"
    using setup_populated by blast
  have p: "populated_fs ''neurosity_data.db'' = Some (SqliteFile populated_database)"
    by (simp add: populated_fs_def)
  from schema_creation_idempotent[of populated_fs "''neurosity_data.db''"] s p
  obtain d' where d': "fs' ''neurosity_data.db'' = Some (SqliteFile d')"
    "has_table ''aggregated_data'' d'" "setup_database fs' ''neurosity_data.db'' = Inr fs'"
    "keeps populated_database d'"
    by blast
  have "distinct (map fst (db_tables populated_database))"
    "distinct (map fst (db_indexes populated_database))"
    "db_rows populated_database = alice_rows"
    by (simp_all add: populated_database_def)
  with d'(4) have "db_rows d' = alice_rows" "distinct (map fst (db_tables d'))"
    "distinct (map fst (db_indexes d'))"
    by (simp_all add: keeps_def)
  with s d'(1-3) show ?thesis by blast
qed

theorem init_database_creates_no_aggregate_table:
  "init_database Map.empty ''neurosity_data.db''
     = Inr (Map.empty(''neurosity_data.db'' \<mapsto> SqliteFile initialised_database),
            database.extend initialised_database \<lparr>pending = []\<rparr>)
   \<and> \<not> has_table ''aggregated_data'' initialised_database"
  by (simp add: init_database_def sqlite3_connect_def create_index_if_not_exists_def has_table_def
      create_table_if_not_exists_def empty_database_def initialised_database_def
      brainwaves_raw_columns_def)

section \<open>Rows the reader cannot decode\<close>








section \<open>From the callback to the stored row\<close>










lemma bind_str: "bind_parameter (JStr s) = Inr c \<Longrightarrow> c = Some s"
  by simp



lemma epoch_ms_callback:
  "brainwave_callback ''2024-01-01T12:00:00'' fixed_clock NoFault epoch_ms_payload (example_app 1)
     = Inr (Some (Flushed 1), after_callback epoch_ms_payload)"
  by code_simp

lemma epoch_ms_flush:
  "flush_buffer fixed_clock NoFault (after_callback epoch_ms_payload)
     = (Skipped, after_callback epoch_ms_payload)"
  by code_simp







end
